theory Spec2Isabelle
  imports Complex_Main
begin

section \<open>C arithmetic\<close>

text \<open>
  The detector works on C \<open>int\<close>, \<open>unsigned\<close> and \<open>int16_t\<close> values. The counters and
  estimates of type \<open>int\<close> are modelled by their mathematical value (signed overflow is
  undefined in C; the model describes the runs in which no \<open>int\<close> counter leaves the
  32-bit range). Where C differs from HOL it is written out: division truncates towards
  zero (\<open>cdiv\<close>), the conversion to \<open>int16_t\<close> wraps (\<open>s16\<close>), unsigned arithmetic
  wraps at \<open>2^32\<close> (\<open>u32\<close>, and \<open>usub32\<close> for a subtraction on an index), and an
  unsigned value stored into an \<open>int\<close> is read as two's complement (\<open>s32\<close>).
\<close>

definition cdiv :: "int \<Rightarrow> int \<Rightarrow> int" where
  "cdiv a b = (if (a < 0) = (b < 0) then \<bar>a\<bar> div \<bar>b\<bar> else - (\<bar>a\<bar> div \<bar>b\<bar>))"

definition s16 :: "int \<Rightarrow> int" where
  "s16 x = (x + 32768) mod 65536 - 32768"

definition s32 :: "int \<Rightarrow> int" where
  "s32 x = (x + 2147483648) mod 4294967296 - 2147483648"

definition u32 :: "int \<Rightarrow> int" where
  "u32 x = x mod 4294967296"

definition usub32 :: "nat \<Rightarrow> nat \<Rightarrow> nat" where
  "usub32 a b = (if b \<le> a then a - b else a + 4294967296 - b)"

datatype fault = OutOfBounds | DivByZero

section \<open>Constants of pulse\_detect.h\<close>

text \<open>
  The header \<open>pulse_detect.h\<close> is not among the sources, so the six \<open>PD_\<close> macros are
  parameters of the model. \<open>pd_default\<close> holds the values of the specification
  (\<open>PD_MAX_PULSES = 1200\<close>, \<open>PD_MIN_PULSES = 16\<close>) and, for the four macros the
  specification leaves open, the values of the upstream header.
\<close>

record pd_consts =
  PD_MAX_PULSES :: nat
  PD_MIN_PULSES :: nat
  PD_MIN_PULSE_SAMPLES :: int
  PD_MIN_GAP_MS :: int
  PD_MAX_GAP_MS :: int
  PD_MAX_GAP_RATIO :: int

definition pd_default :: pd_consts where
  "pd_default = \<lparr> PD_MAX_PULSES = 1200, PD_MIN_PULSES = 16, PD_MIN_PULSE_SAMPLES = 10,
                   PD_MIN_GAP_MS = 10, PD_MAX_GAP_MS = 100, PD_MAX_GAP_RATIO = 10 \<rparr>"

definition OOK_HIGH_LOW_RATIO :: int where "OOK_HIGH_LOW_RATIO = 8"
definition OOK_MIN_HIGH_LEVEL :: int where "OOK_MIN_HIGH_LEVEL = 1000"
definition OOK_MAX_HIGH_LEVEL :: int where "OOK_MAX_HIGH_LEVEL = 128 * 128"
definition OOK_MAX_LOW_LEVEL :: int where "OOK_MAX_LOW_LEVEL = cdiv OOK_MAX_HIGH_LEVEL 2"
definition OOK_EST_HIGH_RATIO :: int where "OOK_EST_HIGH_RATIO = 64"
definition OOK_EST_LOW_RATIO :: int where "OOK_EST_LOW_RATIO = 1024"
definition FSK_DEFAULT_FM_DELTA :: int where "FSK_DEFAULT_FM_DELTA = 6000"
definition FSK_EST_RATIO :: int where "FSK_EST_RATIO = 32"

section \<open>Pulse buffer\<close>

text \<open>
  \<open>pulse_data_t\<close>: the arrays \<open>pulse\<close> and \<open>gap\<close> have \<open>PD_MAX_PULSES\<close> elements of type
  \<open>int\<close> (they are handed to \<open>histogram_sum\<close> as \<open>const int *\<close>); \<open>num_pulses\<close> is
  unsigned. An array is a function on indices; \<open>rd\<close> and \<open>wr\<close> are the accesses, which
  fault outside \<open>0 .. PD_MAX_PULSES - 1\<close>. The two level estimates of the buffer carry
  the prefix \<open>pd_\<close>, since the detector state has fields of the same name.
\<close>

record pulse_data_t =
  offset :: nat
  num_pulses :: nat
  pulse :: "nat \<Rightarrow> int"
  gap :: "nat \<Rightarrow> int"
  pd_ook_low_estimate :: int
  pd_ook_high_estimate :: int
  fsk_f1_est :: int
  fsk_f2_est :: int

definition pulse_data_clear :: pulse_data_t where
  "pulse_data_clear = \<lparr> offset = 0, num_pulses = 0, pulse = (\<lambda>_. 0), gap = (\<lambda>_. 0),
      pd_ook_low_estimate = 0, pd_ook_high_estimate = 0, fsk_f1_est = 0, fsk_f2_est = 0 \<rparr>"

definition rd :: "pd_consts \<Rightarrow> (nat \<Rightarrow> int) \<Rightarrow> nat \<Rightarrow> fault + int" where
  "rd c a i = (if i < PD_MAX_PULSES c then Inr (a i) else Inl OutOfBounds)"

definition wr :: "pd_consts \<Rightarrow> (nat \<Rightarrow> int) \<Rightarrow> nat \<Rightarrow> int \<Rightarrow> fault + (nat \<Rightarrow> int)" where
  "wr c a i v = (if i < PD_MAX_PULSES c then Inr (a(i := v)) else Inl OutOfBounds)"

section \<open>FSK detector\<close>

datatype fsk_state_t =
  PD_FSK_STATE_INIT | PD_FSK_STATE_F1 | PD_FSK_STATE_F2 | PD_FSK_STATE_ERROR

record pulse_FSK_state_t =
  fsk_pulse_length :: int
  fsk_state :: fsk_state_t
  fm_f1_est :: int
  fm_f2_est :: int

definition FSK_state_zero :: pulse_FSK_state_t where
  "FSK_state_zero = \<lparr> fsk_pulse_length = 0, fsk_state = PD_FSK_STATE_INIT,
                       fm_f1_est = 0, fm_f2_est = 0 \<rparr>"

text \<open>
  The three live cases of the switch of \<open>pulse_FSK_detect\<close>, after the counter has
  been incremented; \<open>d1\<close> and \<open>d2\<close> are the two deltas taken on entry. The counter
  \<open>fsk_pulse_length\<close> is an \<open>unsigned int\<close>: it holds a value in \<open>0 .. 2^32 - 1\<close>,
  every update wraps (\<open>u32\<close>), it is compared with \<open>PD_MIN_PULSE_SAMPLES\<close> as an
  unsigned value, and it is converted (\<open>s32\<close>) when stored into \<open>pulse[]\<close> or \<open>gap[]\<close>.
\<close>

definition fsk_init :: "pd_consts \<Rightarrow> int \<Rightarrow> int \<Rightarrow> pulse_data_t \<Rightarrow> pulse_FSK_state_t
    \<Rightarrow> fault + (pulse_data_t \<times> pulse_FSK_state_t)" where
  "fsk_init c fm_n d1 p s =
    (if fsk_pulse_length s < u32 (PD_MIN_PULSE_SAMPLES c) then
       Inr (p, s\<lparr>fm_f1_est := cdiv (fm_f1_est s) 2 + cdiv fm_n 2\<rparr>)
     else if d1 > cdiv FSK_DEFAULT_FM_DELTA 2 then
       (if fm_n > fm_f1_est s then
          (case wr c (pulse p) 0 0 of Inl e \<Rightarrow> Inl e | Inr pu \<Rightarrow>
           (case wr c (gap p) 0 (s32 (fsk_pulse_length s)) of Inl e \<Rightarrow> Inl e | Inr ga \<Rightarrow>
             Inr (p\<lparr>num_pulses := num_pulses p + 1, pulse := pu, gap := ga\<rparr>,
                  s\<lparr>fsk_pulse_length := 0, fsk_state := PD_FSK_STATE_F1,
                    fm_f1_est := fm_n, fm_f2_est := fm_f1_est s\<rparr>)))
        else
          (case wr c (pulse p) 0 (s32 (fsk_pulse_length s)) of Inl e \<Rightarrow> Inl e | Inr pu \<Rightarrow>
             Inr (p\<lparr>pulse := pu\<rparr>,
                  s\<lparr>fsk_pulse_length := 0, fsk_state := PD_FSK_STATE_F2, fm_f2_est := fm_n\<rparr>)))
     else
       Inr (p, s\<lparr>fm_f1_est := fm_f1_est s
                    + (cdiv fm_n FSK_EST_RATIO - cdiv (fm_f1_est s) FSK_EST_RATIO)\<rparr>))"

definition fsk_f1 :: "pd_consts \<Rightarrow> int \<Rightarrow> int \<Rightarrow> int \<Rightarrow> pulse_data_t \<Rightarrow> pulse_FSK_state_t
    \<Rightarrow> fault + (pulse_data_t \<times> pulse_FSK_state_t)" where
  "fsk_f1 c fm_n d1 d2 p s =
    (if d1 > d2 then
       (if fsk_pulse_length s \<ge> u32 (PD_MIN_PULSE_SAMPLES c) then
          (case wr c (pulse p) (num_pulses p) (s32 (fsk_pulse_length s)) of Inl e \<Rightarrow> Inl e
           | Inr pu \<Rightarrow>
             Inr (p\<lparr>pulse := pu\<rparr>, s\<lparr>fsk_pulse_length := 0, fsk_state := PD_FSK_STATE_F2\<rparr>))
        else
          (case rd c (gap p) (usub32 (num_pulses p) 1) of Inl e \<Rightarrow> Inl e
           | Inr g \<Rightarrow>
             (let n = usub32 (num_pulses p) 1;
                  s1 = s\<lparr>fsk_pulse_length := u32 (fsk_pulse_length s + g),
                         fsk_state := PD_FSK_STATE_F2\<rparr>
              in if n = 0 then
                   (case rd c (pulse p) 0 of Inl e \<Rightarrow> Inl e
                    | Inr p0 \<Rightarrow>
                      Inr (p\<lparr>num_pulses := n\<rparr>,
                           if p0 = 0
                           then s1\<lparr>fsk_state := PD_FSK_STATE_INIT, fm_f1_est := fm_f2_est s\<rparr>
                           else s1))
                 else Inr (p\<lparr>num_pulses := n\<rparr>, s1))))
     else
       Inr (p, s\<lparr>fm_f1_est := fm_f1_est s
                    + (cdiv fm_n FSK_EST_RATIO - cdiv (fm_f1_est s) FSK_EST_RATIO)\<rparr>))"

definition fsk_f2 :: "pd_consts \<Rightarrow> int \<Rightarrow> int \<Rightarrow> int \<Rightarrow> pulse_data_t \<Rightarrow> pulse_FSK_state_t
    \<Rightarrow> fault + (pulse_data_t \<times> pulse_FSK_state_t)" where
  "fsk_f2 c fm_n d1 d2 p s =
    (if d2 > d1 then
       (if fsk_pulse_length s \<ge> u32 (PD_MIN_PULSE_SAMPLES c) then
          (case wr c (gap p) (num_pulses p) (s32 (fsk_pulse_length s)) of Inl e \<Rightarrow> Inl e
           | Inr ga \<Rightarrow>
             Inr (p\<lparr>num_pulses := num_pulses p + 1, gap := ga\<rparr>,
                  s\<lparr>fsk_pulse_length := 0,
                    fsk_state := (if num_pulses p + 1 \<ge> PD_MAX_PULSES c
                                  then PD_FSK_STATE_ERROR else PD_FSK_STATE_F1)\<rparr>))
        else
          (case rd c (pulse p) (num_pulses p) of Inl e \<Rightarrow> Inl e
           | Inr w \<Rightarrow>
             Inr (p, s\<lparr>fsk_pulse_length := u32 (fsk_pulse_length s + w),
                       fsk_state := (if num_pulses p = 0
                                     then PD_FSK_STATE_INIT else PD_FSK_STATE_F1)\<rparr>)))
     else
       Inr (p, s\<lparr>fm_f2_est := fm_f2_est s
                    + (cdiv fm_n FSK_EST_RATIO - cdiv (fm_f2_est s) FSK_EST_RATIO)\<rparr>))"

fun pulse_FSK_detect :: "pd_consts \<Rightarrow> int \<Rightarrow> pulse_data_t \<times> pulse_FSK_state_t
    \<Rightarrow> fault + (pulse_data_t \<times> pulse_FSK_state_t)" where
  "pulse_FSK_detect c fm_n (p, s0) =
    (let fm_f1_delta = \<bar>fm_n - fm_f1_est s0\<bar>;
         fm_f2_delta = \<bar>fm_n - fm_f2_est s0\<bar>;
         s = s0\<lparr>fsk_pulse_length := u32 (fsk_pulse_length s0 + 1)\<rparr>
     in case fsk_state s of
          PD_FSK_STATE_INIT \<Rightarrow> fsk_init c fm_n fm_f1_delta p s
        | PD_FSK_STATE_F1 \<Rightarrow> fsk_f1 c fm_n fm_f1_delta fm_f2_delta p s
        | PD_FSK_STATE_F2 \<Rightarrow> fsk_f2 c fm_n fm_f1_delta fm_f2_delta p s
        | PD_FSK_STATE_ERROR \<Rightarrow> Inr (p, s))"

declare pulse_FSK_detect.simps [simp del]

text \<open>Feeding a sequence of FM samples, one call per sample.\<close>

fun fsk_run :: "pd_consts \<Rightarrow> int list \<Rightarrow> pulse_data_t \<times> pulse_FSK_state_t
    \<Rightarrow> fault + (pulse_data_t \<times> pulse_FSK_state_t)" where
  "fsk_run c [] ps = Inr ps"
| "fsk_run c (x # xs) ps =
     (case pulse_FSK_detect c x ps of Inl e \<Rightarrow> Inl e | Inr ps' \<Rightarrow> fsk_run c xs ps')"

fun pulse_FSK_wrap_up :: "pd_consts \<Rightarrow> pulse_data_t \<times> pulse_FSK_state_t
    \<Rightarrow> fault + (pulse_data_t \<times> pulse_FSK_state_t)" where
  "pulse_FSK_wrap_up c (p, s0) =
    (if num_pulses p < PD_MAX_PULSES c then
       (let s = s0\<lparr>fsk_pulse_length := u32 (fsk_pulse_length s0 + 1)\<rparr> in
        if fsk_state s = PD_FSK_STATE_F1 then
          (case wr c (pulse p) (num_pulses p) (s32 (fsk_pulse_length s)) of Inl e \<Rightarrow> Inl e
           | Inr pu \<Rightarrow>
           (case wr c (gap p) (num_pulses p) 0 of Inl e \<Rightarrow> Inl e
            | Inr ga \<Rightarrow> Inr (p\<lparr>num_pulses := num_pulses p + 1, pulse := pu, gap := ga\<rparr>, s)))
        else
          (case wr c (gap p) (num_pulses p) (s32 (fsk_pulse_length s)) of Inl e \<Rightarrow> Inl e
           | Inr ga \<Rightarrow> Inr (p\<lparr>num_pulses := num_pulses p + 1, gap := ga\<rparr>, s)))
     else Inr (p, s0))"

declare pulse_FSK_wrap_up.simps [simp del]

section \<open>OOK detector\<close>

datatype ook_state_t =
  PD_OOK_STATE_IDLE | PD_OOK_STATE_PULSE | PD_OOK_STATE_GAP_START | PD_OOK_STATE_GAP

record pulse_state_t =
  ook_state :: ook_state_t
  pulse_length :: int
  max_pulse :: int
  data_counter :: int
  lead_in_counter :: int
  ook_low_estimate :: int
  ook_high_estimate :: int
  FSK_state :: pulse_FSK_state_t

text \<open>The static \<open>pulse_state\<close> starts zeroed.\<close>

definition pulse_state_zero :: pulse_state_t where
  "pulse_state_zero = \<lparr> ook_state = PD_OOK_STATE_IDLE, pulse_length = 0, max_pulse = 0,
      data_counter = 0, lead_in_counter = 0, ook_low_estimate = 0, ook_high_estimate = 0,
      FSK_state = FSK_state_zero \<rparr>"

text \<open>
  A detector configuration is the static state with the two buffers the caller passes.
  One pass through the body of the \<open>while\<close> loop either faults, returns a packet code
  (before \<open>data_counter++\<close>), or falls through to the increment.
\<close>

type_synonym detector = "pulse_state_t \<times> pulse_data_t \<times> pulse_data_t"

datatype step = Fault fault | Return int detector | Next detector

definition rdl :: "int list \<Rightarrow> int \<Rightarrow> fault + int" where
  "rdl xs i = (if 0 \<le> i \<and> nat i < length xs then Inr (xs ! nat i) else Inl OutOfBounds)"

definition ook_threshold :: "int \<Rightarrow> pulse_state_t \<Rightarrow> int" where
  "ook_threshold level_limit s =
    (if level_limit \<noteq> 0 then level_limit
     else s16 (ook_low_estimate s + cdiv (ook_high_estimate s - ook_low_estimate s) 2))"

definition ook_hysteresis :: "int \<Rightarrow> pulse_state_t \<Rightarrow> int" where
  "ook_hysteresis level_limit s = s16 (cdiv (ook_threshold level_limit s) 8)"

definition clamp_high :: "int \<Rightarrow> int" where
  "clamp_high h = min (max h OOK_MIN_HIGH_LEVEL) OOK_MAX_HIGH_LEVEL"

text \<open>The FSK demodulation at the end of the PULSE and GAP\_START cases.\<close>

fun fsk_feed :: "pd_consts \<Rightarrow> fault + int \<Rightarrow> detector \<Rightarrow> step" where
  "fsk_feed c fmr (s, p, f) =
    (if num_pulses p = 0 then
       (case fmr of Inl e \<Rightarrow> Fault e
        | Inr fm_n \<Rightarrow>
          (case pulse_FSK_detect c fm_n (f, FSK_state s) of Inl e \<Rightarrow> Fault e
           | Inr r \<Rightarrow> Next (s\<lparr>FSK_state := snd r\<rparr>, p, fst r)))
     else Next (s, p, f))"

declare fsk_feed.simps [simp del]

fun ook_idle :: "int \<Rightarrow> nat \<Rightarrow> int \<Rightarrow> detector \<Rightarrow> step" where
  "ook_idle level_limit sample_offset am_n (s, p, f) =
    (if am_n > ook_threshold level_limit s + ook_hysteresis level_limit s
        \<and> lead_in_counter s > OOK_EST_LOW_RATIO
     then
       (let start = nat ((int sample_offset + data_counter s) mod 18446744073709551616) in
        Next (s\<lparr>ook_state := PD_OOK_STATE_PULSE, pulse_length := 0, max_pulse := 0,
                 FSK_state := FSK_state_zero\<rparr>,
              pulse_data_clear\<lparr>offset := start\<rparr>, pulse_data_clear\<lparr>offset := start\<rparr>))
     else
       (let ook_low_delta = am_n - ook_low_estimate s;
            low = ook_low_estimate s + cdiv ook_low_delta OOK_EST_LOW_RATIO
                  + (if ook_low_delta > 0 then 1 else - 1)
        in Next (s\<lparr>lead_in_counter := (if lead_in_counter s \<le> OOK_EST_LOW_RATIO
                                         then lead_in_counter s + 1 else lead_in_counter s),
                    ook_low_estimate := low,
                    ook_high_estimate := clamp_high (OOK_HIGH_LOW_RATIO * low)\<rparr>, p, f)))"

declare ook_idle.simps [simp del]

fun ook_pulse :: "pd_consts \<Rightarrow> int \<Rightarrow> int \<Rightarrow> fault + int \<Rightarrow> detector \<Rightarrow> step" where
  "ook_pulse c level_limit am_n fmr (s0, p, f) =
    (let s = s0\<lparr>pulse_length := pulse_length s0 + 1\<rparr> in
     if am_n < ook_threshold level_limit s - ook_hysteresis level_limit s then
       (if pulse_length s < PD_MIN_PULSE_SAMPLES c then
          fsk_feed c fmr (s\<lparr>ook_state := PD_OOK_STATE_IDLE\<rparr>, p, f)
        else
          (case wr c (pulse p) (num_pulses p) (pulse_length s) of Inl e \<Rightarrow> Fault e
           | Inr pu \<Rightarrow>
             fsk_feed c fmr
               (s\<lparr>ook_state := PD_OOK_STATE_GAP_START, pulse_length := 0,
                  max_pulse := max (pulse_length s) (max_pulse s)\<rparr>, p\<lparr>pulse := pu\<rparr>, f)))
     else
       (case fmr of Inl e \<Rightarrow> Fault e
        | Inr fm_n \<Rightarrow>
          fsk_feed c fmr
            (s\<lparr>ook_high_estimate :=
                 clamp_high (ook_high_estimate s + (cdiv am_n OOK_EST_HIGH_RATIO
                               - cdiv (ook_high_estimate s) OOK_EST_HIGH_RATIO))\<rparr>,
             p\<lparr>fsk_f1_est := fsk_f1_est p + (cdiv fm_n OOK_EST_HIGH_RATIO
                               - cdiv (fsk_f1_est p) OOK_EST_HIGH_RATIO)\<rparr>, f)))"

declare ook_pulse.simps [simp del]

fun ook_gap_start :: "pd_consts \<Rightarrow> int \<Rightarrow> int \<Rightarrow> fault + int \<Rightarrow> detector \<Rightarrow> step" where
  "ook_gap_start c level_limit am_n fmr (s0, p, f) =
    (let s = s0\<lparr>pulse_length := pulse_length s0 + 1\<rparr> in
     if am_n > ook_threshold level_limit s + ook_hysteresis level_limit s then
       (case rd c (pulse p) (num_pulses p) of Inl e \<Rightarrow> Fault e
        | Inr w \<Rightarrow>
          fsk_feed c fmr
            (s\<lparr>ook_state := PD_OOK_STATE_PULSE, pulse_length := pulse_length s + w\<rparr>, p, f))
     else if pulse_length s \<ge> PD_MIN_PULSE_SAMPLES c then
       (if num_pulses f > PD_MIN_PULSES c then
          (case pulse_FSK_wrap_up c (f, FSK_state s) of Inl e \<Rightarrow> Fault e
           | Inr r \<Rightarrow>
             Return 2
               (s\<lparr>ook_state := PD_OOK_STATE_IDLE, FSK_state := snd r\<rparr>, p,
                (fst r)\<lparr>pd_ook_low_estimate := ook_low_estimate s,
                        pd_ook_high_estimate := ook_high_estimate s,
                        fsk_f1_est := fm_f1_est (snd r), fsk_f2_est := fm_f2_est (snd r)\<rparr>))
        else fsk_feed c fmr (s\<lparr>ook_state := PD_OOK_STATE_GAP\<rparr>, p, f))
     else fsk_feed c fmr (s, p, f))"

declare ook_gap_start.simps [simp del]

text \<open>The end-of-packet test that closes the GAP case.\<close>

fun ook_gap_eop :: "pd_consts \<Rightarrow> int \<Rightarrow> detector \<Rightarrow> step" where
  "ook_gap_eop c samples_per_ms (s, p, f) =
    (if (pulse_length s > PD_MAX_GAP_RATIO c * max_pulse s
           \<and> pulse_length s > PD_MIN_GAP_MS c * samples_per_ms)
        \<or> pulse_length s > PD_MAX_GAP_MS c * samples_per_ms
     then
       (case wr c (gap p) (num_pulses p) (pulse_length s) of Inl e \<Rightarrow> Fault e
        | Inr ga \<Rightarrow>
          Return 1
            (s\<lparr>ook_state := PD_OOK_STATE_IDLE\<rparr>,
             p\<lparr>num_pulses := num_pulses p + 1, gap := ga,
               pd_ook_low_estimate := ook_low_estimate s,
               pd_ook_high_estimate := ook_high_estimate s\<rparr>, f))
     else Next (s, p, f))"

declare ook_gap_eop.simps [simp del]

fun ook_gap :: "pd_consts \<Rightarrow> int \<Rightarrow> int \<Rightarrow> int \<Rightarrow> detector \<Rightarrow> step" where
  "ook_gap c level_limit samples_per_ms am_n (s0, p, f) =
    (let s = s0\<lparr>pulse_length := pulse_length s0 + 1\<rparr> in
     if am_n > ook_threshold level_limit s + ook_hysteresis level_limit s then
       (case wr c (gap p) (num_pulses p) (pulse_length s) of Inl e \<Rightarrow> Fault e
        | Inr ga \<Rightarrow>
          if num_pulses p + 1 \<ge> PD_MAX_PULSES c then
            Return 1
              (s\<lparr>ook_state := PD_OOK_STATE_IDLE\<rparr>,
               p\<lparr>num_pulses := num_pulses p + 1, gap := ga,
                 pd_ook_low_estimate := ook_low_estimate s,
                 pd_ook_high_estimate := ook_high_estimate s\<rparr>, f)
          else
            ook_gap_eop c samples_per_ms
              (s\<lparr>ook_state := PD_OOK_STATE_PULSE, pulse_length := 0\<rparr>,
               p\<lparr>num_pulses := num_pulses p + 1, gap := ga\<rparr>, f))
     else ook_gap_eop c samples_per_ms (s, p, f))"

declare ook_gap.simps [simp del]

text \<open>The body of the loop for the sample at \<open>data_counter\<close>: \<open>amr\<close> and \<open>fmr\<close> are
  the reads of \<open>envelope_data\<close> and \<open>fm_data\<close> there (the second one is only looked at
  where the source reads \<open>fm_data\<close>).\<close>

definition pd_sample :: "pd_consts \<Rightarrow> int \<Rightarrow> int \<Rightarrow> nat \<Rightarrow> fault + int \<Rightarrow> fault + int
    \<Rightarrow> detector \<Rightarrow> step" where
  "pd_sample c level_limit samples_per_ms sample_offset amr fmr d =
    (case amr of Inl e \<Rightarrow> Fault e
     | Inr am_n \<Rightarrow>
       (case ook_state (fst d) of
          PD_OOK_STATE_IDLE \<Rightarrow> ook_idle level_limit sample_offset am_n d
        | PD_OOK_STATE_PULSE \<Rightarrow> ook_pulse c level_limit am_n fmr d
        | PD_OOK_STATE_GAP_START \<Rightarrow> ook_gap_start c level_limit am_n fmr d
        | PD_OOK_STATE_GAP \<Rightarrow> ook_gap c level_limit samples_per_ms am_n d))"

text \<open>The \<open>while\<close> loop of \<open>pulse_detect_package\<close>, with the two exits of the function:
  a packet code from inside the loop, which leaves \<open>data_counter\<close> as it is, and the
  end of the chunk, which resets it and returns 0.\<close>

function pd_loop :: "pd_consts \<Rightarrow> int list \<Rightarrow> int list \<Rightarrow> int \<Rightarrow> int \<Rightarrow> int \<Rightarrow> nat
    \<Rightarrow> detector \<Rightarrow> fault + (int \<times> detector)" where
  "pd_loop c envelope_data fm_data len level_limit samples_per_ms sample_offset d =
    (if data_counter (fst d) < len then
       (case pd_sample c level_limit samples_per_ms sample_offset
               (rdl envelope_data (data_counter (fst d)))
               (rdl fm_data (data_counter (fst d))) d of
          Fault e \<Rightarrow> Inl e
        | Return r d' \<Rightarrow> Inr (r, d')
        | Next d' \<Rightarrow>
            pd_loop c envelope_data fm_data len level_limit samples_per_ms sample_offset
              ((fst d')\<lparr>data_counter := data_counter (fst d') + 1\<rparr>, snd d'))
     else Inr (0, (fst d)\<lparr>data_counter := 0\<rparr>, snd d))"
  by pat_completeness auto
termination
  by (relation "measure (\<lambda>(c, e, fm, len, ll, spm, so, d). nat (len - data_counter (fst d)))")
     (auto simp: pd_sample_def ook_idle.simps ook_pulse.simps ook_gap_start.simps
        ook_gap.simps ook_gap_eop.simps fsk_feed.simps Let_def
        split: sum.splits ook_state_t.splits if_splits)

declare pd_loop.simps [simp del]

definition pulse_detect_package :: "pd_consts \<Rightarrow> int list \<Rightarrow> int list \<Rightarrow> int \<Rightarrow> int \<Rightarrow> nat
    \<Rightarrow> nat \<Rightarrow> detector \<Rightarrow> fault + (int \<times> detector)" where
  "pulse_detect_package c envelope_data fm_data len level_limit samp_rate sample_offset d =
    pd_loop c envelope_data fm_data len level_limit (int (samp_rate div 1000)) sample_offset
      ((fst d)\<lparr>ook_high_estimate := max (ook_high_estimate (fst d)) OOK_MIN_HIGH_LEVEL\<rparr>,
       snd d)"

section \<open>Calls, chunks and streams\<close>

text \<open>
  The loop again, as a recursion over the samples that remain in the chunk (the pairs
  \<open>(envelope_data[i], fm_data[i])\<close> from the cursor up to \<open>len\<close>); \<open>pd_loop_feed\<close>
  below shows that it is the loop whenever the two arrays hold \<open>len\<close> samples.
\<close>

fun pd_feed :: "pd_consts \<Rightarrow> int \<Rightarrow> int \<Rightarrow> nat \<Rightarrow> (int \<times> int) list \<Rightarrow> detector
    \<Rightarrow> fault + (int \<times> detector)" where
  "pd_feed c level_limit samples_per_ms sample_offset [] d =
     Inr (0, (fst d)\<lparr>data_counter := 0\<rparr>, snd d)"
| "pd_feed c level_limit samples_per_ms sample_offset (x # xs) d =
     (case pd_sample c level_limit samples_per_ms sample_offset (Inr (fst x)) (Inr (snd x)) d of
        Fault e \<Rightarrow> Inl e
      | Return r d' \<Rightarrow> Inr (r, d')
      | Next d' \<Rightarrow>
          pd_feed c level_limit samples_per_ms sample_offset xs
            ((fst d')\<lparr>data_counter := data_counter (fst d') + 1\<rparr>, snd d'))"

text \<open>The number of samples the loop body looks at in one call: one per iteration,
  the iteration that returns included.\<close>

function pd_loop_samples :: "pd_consts \<Rightarrow> int list \<Rightarrow> int list \<Rightarrow> int \<Rightarrow> int \<Rightarrow> int \<Rightarrow> nat
    \<Rightarrow> detector \<Rightarrow> nat" where
  "pd_loop_samples c envelope_data fm_data len level_limit samples_per_ms sample_offset d =
    (if data_counter (fst d) < len then
       (case pd_sample c level_limit samples_per_ms sample_offset
               (rdl envelope_data (data_counter (fst d)))
               (rdl fm_data (data_counter (fst d))) d of
          Fault e \<Rightarrow> 1
        | Return r d' \<Rightarrow> 1
        | Next d' \<Rightarrow>
            1 + pd_loop_samples c envelope_data fm_data len level_limit samples_per_ms
                  sample_offset ((fst d')\<lparr>data_counter := data_counter (fst d') + 1\<rparr>, snd d'))
     else 0)"
  by pat_completeness auto
termination
  by (relation "measure (\<lambda>(c, e, fm, len, ll, spm, so, d). nat (len - data_counter (fst d)))")
     (auto simp: pd_sample_def ook_idle.simps ook_pulse.simps ook_gap_start.simps
        ook_gap.simps ook_gap_eop.simps fsk_feed.simps Let_def
        split: sum.splits ook_state_t.splits if_splits)

declare pd_loop_samples.simps [simp del]

definition samples_examined :: "pd_consts \<Rightarrow> int list \<Rightarrow> int list \<Rightarrow> int \<Rightarrow> int \<Rightarrow> nat
    \<Rightarrow> nat \<Rightarrow> detector \<Rightarrow> nat" where
  "samples_examined c envelope_data fm_data len level_limit samp_rate sample_offset d =
    pd_loop_samples c envelope_data fm_data len level_limit (int (samp_rate div 1000))
      sample_offset
      ((fst d)\<lparr>ook_high_estimate := max (ook_high_estimate (fst d)) OOK_MIN_HIGH_LEVEL\<rparr>,
       snd d)"




text \<open>
  An example stream at 250 kHz: 1025 samples of silence (the lead-in), then a carrier of
  amplitude 4000 for 365 samples whose frequency toggles between +5000 and -5000 every
  10 samples, then silence.
\<close>

definition env_ex :: "int list" where
  "env_ex = replicate 1025 0 @ replicate 365 4000 @ replicate 11 0"

definition fm_ex :: "int list" where
  "fm_ex = replicate 1025 0 @ concat (replicate 18 (replicate 10 5000 @ replicate 10 (- 5000)))
             @ replicate 16 5000"



section \<open>Invariants of the detectors\<close>

text \<open>
  The index invariant of the FSK detector: the timer is a value of its unsigned type, and
  the state tells where \<open>num_pulses\<close> is. State F1 has a committed symbol below it
  (the rewind reads \<open>gap[num_pulses - 1]\<close>), F1 and F2 have room for the symbol in
  progress, and ERROR is entered only with a full buffer.
\<close>

definition fsk_inv :: "pd_consts \<Rightarrow> pulse_data_t \<Rightarrow> pulse_FSK_state_t \<Rightarrow> bool" where
  "fsk_inv c p s \<longleftrightarrow>
    0 \<le> fsk_pulse_length s \<and> fsk_pulse_length s < 4294967296 \<and>
    (case fsk_state s of
       PD_FSK_STATE_INIT \<Rightarrow> num_pulses p = 0
     | PD_FSK_STATE_F1 \<Rightarrow> 1 \<le> num_pulses p \<and> num_pulses p < PD_MAX_PULSES c
     | PD_FSK_STATE_F2 \<Rightarrow> num_pulses p < PD_MAX_PULSES c
     | PD_FSK_STATE_ERROR \<Rightarrow> PD_MAX_PULSES c \<le> num_pulses p)"

text \<open>
  The symbols \<open>0 .. n-1\<close> of an FSK buffer are committed symbols: each gap has passed
  the minimum-width test, and so has each pulse, except the sentinel \<open>pulse[0] = 0\<close>
  that marks a packet starting on the low frequency.
\<close>

definition fsk_symbols_ok :: "pd_consts \<Rightarrow> pulse_data_t \<Rightarrow> nat \<Rightarrow> bool" where
  "fsk_symbols_ok c p n \<longleftrightarrow>
    (\<forall>k<n. PD_MIN_PULSE_SAMPLES c \<le> gap p k
        \<and> (PD_MIN_PULSE_SAMPLES c \<le> pulse p k \<or> (k = 0 \<and> pulse p 0 = 0)))"

text \<open>
  Every sample the FSK detector has seen is counted exactly once: in the timer, in a
  committed symbol, or in the pulse of the symbol in progress (state F2). \<open>fsk_total\<close>
  is that count; every call of \<open>pulse_FSK_detect\<close> adds one to it, the rewinds
  included, as long as the timer does not wrap.
\<close>

definition sym_sum :: "(nat \<Rightarrow> int) \<Rightarrow> (nat \<Rightarrow> int) \<Rightarrow> nat \<Rightarrow> int" where
  "sym_sum pu ga n = (\<Sum>k<n. pu k + ga k)"










text \<open>The bounds of the high level estimate, and what a step leaves of them.\<close>

definition high_ok :: "pulse_state_t \<Rightarrow> bool" where
  "high_ok s \<longleftrightarrow> OOK_MIN_HIGH_LEVEL \<le> ook_high_estimate s
                 \<and> ook_high_estimate s \<le> OOK_MAX_HIGH_LEVEL"

definition high_after :: "step \<Rightarrow> bool" where
  "high_after st \<longleftrightarrow>
    (case st of Fault e \<Rightarrow> True | Return r d' \<Rightarrow> high_ok (fst d') | Next d' \<Rightarrow> high_ok (fst d'))"
section \<open>The FSK detector keeps its indices in range\<close>

lemma u32_range: "0 \<le> u32 x \<and> u32 x < 4294967296"
  by (simp add: u32_def)

lemma fsk_inv_start: "num_pulses p0 = 0 \<Longrightarrow> fsk_inv c p0 FSK_state_zero"
  by (simp add: fsk_inv_def FSK_state_zero_def)

lemma fsk_inv_clear: "fsk_inv c pulse_data_clear FSK_state_zero"
  by (simp add: fsk_inv_start pulse_data_clear_def)

lemma fsk_init_inv:
  assumes "fsk_inv c p s" "fsk_state s = PD_FSK_STATE_INIT" "2 \<le> PD_MAX_PULSES c"
  shows "\<exists>p' s'. fsk_init c x d1 p (s\<lparr>fsk_pulse_length := u32 l\<rparr>) = Inr (p', s')
           \<and> fsk_inv c p' s'"
  using assms u32_range [of l]
  by (auto simp: fsk_init_def fsk_inv_def wr_def)

lemma fsk_f1_inv:
  assumes "fsk_inv c p s" "fsk_state s = PD_FSK_STATE_F1" "2 \<le> PD_MAX_PULSES c"
  shows "\<exists>p' s'. fsk_f1 c x d1 d2 p (s\<lparr>fsk_pulse_length := u32 l\<rparr>) = Inr (p', s')
           \<and> fsk_inv c p' s'"
  using assms u32_range [of l] u32_range [of "u32 l + gap p (num_pulses p - Suc 0)"]
  by (auto simp: fsk_f1_def fsk_inv_def wr_def rd_def usub32_def Let_def)

lemma fsk_f2_inv:
  assumes "fsk_inv c p s" "fsk_state s = PD_FSK_STATE_F2" "2 \<le> PD_MAX_PULSES c"
  shows "\<exists>p' s'. fsk_f2 c x d1 d2 p (s\<lparr>fsk_pulse_length := u32 l\<rparr>) = Inr (p', s')
           \<and> fsk_inv c p' s'"
  using assms u32_range [of l] u32_range [of "u32 l + pulse p (num_pulses p)"]
  by (auto simp: fsk_f2_def fsk_inv_def wr_def rd_def)

lemma pulse_FSK_detect_inv:
  assumes "fsk_inv c p s" "2 \<le> PD_MAX_PULSES c"
  shows "\<exists>p' s'. pulse_FSK_detect c x (p, s) = Inr (p', s') \<and> fsk_inv c p' s'"
proof (cases "fsk_state s")
  case PD_FSK_STATE_INIT
  with fsk_init_inv [OF assms(1) this assms(2)] show ?thesis
    by (simp add: pulse_FSK_detect.simps Let_def)
next
  case PD_FSK_STATE_F1
  with fsk_f1_inv [OF assms(1) this assms(2)] show ?thesis
    by (simp add: pulse_FSK_detect.simps Let_def)
next
  case PD_FSK_STATE_F2
  with fsk_f2_inv [OF assms(1) this assms(2)] show ?thesis
    by (simp add: pulse_FSK_detect.simps Let_def)
next
  case PD_FSK_STATE_ERROR
  with assms u32_range [of "fsk_pulse_length s + 1"] show ?thesis
    by (simp add: pulse_FSK_detect.simps Let_def fsk_inv_def)
qed

lemma fsk_run_inv:
  assumes "2 \<le> PD_MAX_PULSES c"
  shows "fsk_inv c p s \<Longrightarrow> \<exists>p' s'. fsk_run c xs (p, s) = Inr (p', s') \<and> fsk_inv c p' s'"
proof (induction xs arbitrary: p s)
  case Nil
  then show ?case by simp
next
  case (Cons x xs)
  from pulse_FSK_detect_inv [OF Cons.prems assms, of x]
  obtain p1 s1 where 1: "pulse_FSK_detect c x (p, s) = Inr (p1, s1)" and 2: "fsk_inv c p1 s1"
    by blast
  from Cons.IH [OF 2] 1 show ?case by simp
qed

text \<open>
  C9. Started on a cleared buffer and a zeroed state, \<open>pulse_FSK_detect\<close> never
  faults on any sample sequence (every read and store of \<open>pulse\<close> and \<open>gap\<close>,
  the rewind read of \<open>gap[num_pulses - 1]\<close> included, is inside the arrays), and
  afterwards state F1 implies \<open>num_pulses \<ge> 1\<close> and states F1 and F2 imply
  \<open>num_pulses < PD_MAX_PULSES\<close>. The arrays need room for two symbols.
\<close>

theorem FSK_detect_indices_in_bounds:
  assumes "2 \<le> PD_MAX_PULSES c"
  shows "\<exists>p s. fsk_run c fms (pulse_data_clear, FSK_state_zero) = Inr (p, s)
           \<and> (fsk_state s = PD_FSK_STATE_F1 \<longrightarrow> 1 \<le> num_pulses p)
           \<and> (fsk_state s = PD_FSK_STATE_F1 \<or> fsk_state s = PD_FSK_STATE_F2
                \<longrightarrow> num_pulses p < PD_MAX_PULSES c)"
proof -
  from fsk_run_inv [OF assms fsk_inv_clear, of fms]
  obtain p s where "fsk_run c fms (pulse_data_clear, FSK_state_zero) = Inr (p, s)"
    and "fsk_inv c p s" by blast
  then show ?thesis by (auto simp: fsk_inv_def)
qed

theorem FSK_detect_indices_in_bounds_witness:
  "2 \<le> PD_MAX_PULSES pd_default \<and>
   (\<exists>p s. fsk_run pd_default [0, 0, 0, 0, 0, 0, 0, 0, 0, 5000, 5000]
            (pulse_data_clear, FSK_state_zero) = Inr (p, s)
      \<and> (fsk_state s = PD_FSK_STATE_F1 \<longrightarrow> 1 \<le> num_pulses p)
      \<and> (fsk_state s = PD_FSK_STATE_F1 \<or> fsk_state s = PD_FSK_STATE_F2
           \<longrightarrow> num_pulses p < PD_MAX_PULSES pd_default))"
proof -
  have h: "2 \<le> PD_MAX_PULSES pd_default" by (simp add: pd_default_def)
  from FSK_detect_indices_in_bounds [OF h, of "[0, 0, 0, 0, 0, 0, 0, 0, 0, 5000, 5000]"] h
  show ?thesis by blast
qed

text \<open>
  C6. Take any state INIT that the detector reaches from the zeroed FSK state and a buffer
  with \<open>num_pulses = 0\<close> (the buffer \<open>pulse_detect_package\<close> clears on a rising
  edge, whatever its \<open>offset\<close>). Once the incremented timer is no longer below
  \<open>PD_MIN_PULSE_SAMPLES\<close> (both read as \<open>unsigned\<close>, as the comparison in the
  source does), a sample more than \<open>FSK_DEFAULT_FM_DELTA/2\<close> above \<open>fm_f1_est\<close>
  makes the detector swap the estimates, record the sentinel symbol (\<open>pulse[0] = 0\<close>,
  \<open>gap[0]\<close> the timer, converted to the \<open>int\<close> of the array), set
  \<open>num_pulses\<close> to 1, reset the timer and enter F1. The stored gap is the incremented
  timer itself whenever that is below \<open>2^31\<close>.
\<close>

theorem FSK_init_rising_edge:
  assumes "2 \<le> PD_MAX_PULSES c"
    and "num_pulses p0 = 0"
    and "fsk_run c fms (p0, FSK_state_zero) = Inr (p, s)"
    and "fsk_state s = PD_FSK_STATE_INIT"
    and "\<not> u32 (fsk_pulse_length s + 1) < u32 (PD_MIN_PULSE_SAMPLES c)"
    and "fm_n > fm_f1_est s + cdiv FSK_DEFAULT_FM_DELTA 2"
  shows "pulse_FSK_detect c fm_n (p, s) =
      Inr (p\<lparr>num_pulses := 1, pulse := (pulse p)(0 := 0),
             gap := (gap p)(0 := s32 (u32 (fsk_pulse_length s + 1)))\<rparr>,
           s\<lparr>fsk_pulse_length := 0, fsk_state := PD_FSK_STATE_F1,
             fm_f1_est := fm_n, fm_f2_est := fm_f1_est s\<rparr>)
    \<and> (fsk_pulse_length s + 1 < 2147483648
         \<longrightarrow> s32 (u32 (fsk_pulse_length s + 1)) = fsk_pulse_length s + 1)"
proof -
  from fsk_run_inv [OF assms(1) fsk_inv_start [OF assms(2)], of fms] assms(3)
  have inv: "fsk_inv c p s" by simp
  with assms(4) have n: "num_pulses p = 0" and t: "0 \<le> fsk_pulse_length s"
    by (simp_all add: fsk_inv_def)
  from assms(6) have d: "\<bar>fm_n - fm_f1_est s\<bar> > cdiv FSK_DEFAULT_FM_DELTA 2"
    and g: "fm_n > fm_f1_est s"
    by (simp_all add: cdiv_def FSK_DEFAULT_FM_DELTA_def)
  from assms(1,4,5) n d g have 1: "pulse_FSK_detect c fm_n (p, s) =
      Inr (p\<lparr>num_pulses := 1, pulse := (pulse p)(0 := 0),
             gap := (gap p)(0 := s32 (u32 (fsk_pulse_length s + 1)))\<rparr>,
           s\<lparr>fsk_pulse_length := 0, fsk_state := PD_FSK_STATE_F1,
             fm_f1_est := fm_n, fm_f2_est := fm_f1_est s\<rparr>)"
    by (simp add: pulse_FSK_detect.simps fsk_init_def wr_def Let_def)
  from t have 2: "fsk_pulse_length s + 1 < 2147483648
         \<longrightarrow> s32 (u32 (fsk_pulse_length s + 1)) = fsk_pulse_length s + 1"
    by (simp add: s32_def u32_def)
  from 1 2 show ?thesis by blast
qed

theorem FSK_init_rising_edge_witness:
  "2 \<le> PD_MAX_PULSES pd_default
   \<and> num_pulses (pulse_data_clear\<lparr>offset := 1025\<rparr>) = 0
   \<and> fsk_run pd_default [0, 0, 0, 0, 0, 0, 0, 0, 0]
        (pulse_data_clear\<lparr>offset := 1025\<rparr>, FSK_state_zero)
        = Inr (pulse_data_clear\<lparr>offset := 1025\<rparr>, FSK_state_zero\<lparr>fsk_pulse_length := 9\<rparr>)
   \<and> pulse_FSK_detect pd_default 5000
        (pulse_data_clear\<lparr>offset := 1025\<rparr>, FSK_state_zero\<lparr>fsk_pulse_length := 9\<rparr>) =
      Inr (pulse_data_clear\<lparr>offset := 1025, num_pulses := 1, pulse := (\<lambda>_. 0)(0 := 0),
             gap := (\<lambda>_. 0)(0 := 10)\<rparr>,
           \<lparr>fsk_pulse_length = 0, fsk_state = PD_FSK_STATE_F1,
             fm_f1_est = 5000, fm_f2_est = 0\<rparr>)"
proof -
  have h: "2 \<le> PD_MAX_PULSES pd_default" by (simp add: pd_default_def)
  have z: "num_pulses (pulse_data_clear\<lparr>offset := 1025\<rparr>) = 0"
    by (simp add: pulse_data_clear_def)
  have r: "fsk_run pd_default [0, 0, 0, 0, 0, 0, 0, 0, 0]
        (pulse_data_clear\<lparr>offset := 1025\<rparr>, FSK_state_zero)
        = Inr (pulse_data_clear\<lparr>offset := 1025\<rparr>, FSK_state_zero\<lparr>fsk_pulse_length := 9\<rparr>)"
    by (simp add: pulse_FSK_detect.simps fsk_init_def FSK_state_zero_def pd_default_def
          cdiv_def u32_def)
  from FSK_init_rising_edge [OF h z r, of 5000] h z r show ?thesis
    by (simp add: FSK_state_zero_def pulse_data_clear_def pd_default_def cdiv_def
          FSK_DEFAULT_FM_DELTA_def u32_def s32_def)
qed

section \<open>Widths of the symbols the FSK detector commits\<close>

lemma sym_sum_0 [simp]: "sym_sum pu ga 0 = 0"
  by (simp add: sym_sum_def)


lemma sym_sum_upd [simp]:
  "n \<le> i \<Longrightarrow> sym_sum (pu(i := v)) ga n = sym_sum pu ga n"
  "n \<le> i \<Longrightarrow> sym_sum pu (ga(i := v)) n = sym_sum pu ga n"
  by (simp_all add: sym_sum_def)




lemma no_wrap: "0 \<le> x \<Longrightarrow> x < 2147483648 \<Longrightarrow> u32 x = x \<and> s32 x = x"
  by (simp add: u32_def s32_def)


lemma fsk_symbols_ok_upd [simp]:
  "fsk_symbols_ok c (p\<lparr>num_pulses := m\<rparr>) n = fsk_symbols_ok c p n"
  "n \<le> i \<Longrightarrow> fsk_symbols_ok c (p\<lparr>pulse := (pulse p)(i := v)\<rparr>) n = fsk_symbols_ok c p n"
  "n \<le> i \<Longrightarrow> fsk_symbols_ok c (p\<lparr>gap := (gap p)(i := v)\<rparr>) n = fsk_symbols_ok c p n"
  by (auto simp: fsk_symbols_ok_def)






section \<open>Pulse-count overflow in the OOK detector\<close>

lemma ook_threshold_upd [simp]:
  "ook_threshold ll (s\<lparr>pulse_length := x\<rparr>) = ook_threshold ll s"
  "ook_threshold ll (s\<lparr>ook_state := y\<rparr>) = ook_threshold ll s"
  "ook_hysteresis ll (s\<lparr>pulse_length := x\<rparr>) = ook_hysteresis ll s"
  "ook_hysteresis ll (s\<lparr>ook_state := y\<rparr>) = ook_hysteresis ll s"
  by (simp_all add: ook_threshold_def ook_hysteresis_def)

text \<open>
  C5. In state GAP, when the sample at the cursor is a rising edge and storing the gap
  makes \<open>num_pulses\<close> reach \<open>PD_MAX_PULSES\<close>, the call ends the packet in the normal
  way: the gap width is stored, the level estimates are copied into the OOK buffer, the
  state goes back to IDLE and the call returns 1 with \<open>num_pulses = PD_MAX_PULSES\<close>.
  (The threshold is taken after the call has raised the high estimate to its minimum.)
\<close>

theorem OOK_pulse_overflow_ends_packet:
  assumes "ook_state s = PD_OOK_STATE_GAP"
    and "data_counter s < len"
    and "rdl envelope_data (data_counter s) = Inr am_n"
    and "am_n > ook_threshold level_limit
                  (s\<lparr>ook_high_estimate := max (ook_high_estimate s) OOK_MIN_HIGH_LEVEL\<rparr>)
              + ook_hysteresis level_limit
                  (s\<lparr>ook_high_estimate := max (ook_high_estimate s) OOK_MIN_HIGH_LEVEL\<rparr>)"
    and "num_pulses p + 1 = PD_MAX_PULSES c"
  shows "pulse_detect_package c envelope_data fm_data len level_limit samp_rate sample_offset
           (s, p, f) =
         Inr (1,
              s\<lparr>ook_state := PD_OOK_STATE_IDLE, pulse_length := pulse_length s + 1,
                ook_high_estimate := max (ook_high_estimate s) OOK_MIN_HIGH_LEVEL\<rparr>,
              p\<lparr>num_pulses := PD_MAX_PULSES c,
                gap := (gap p)(num_pulses p := pulse_length s + 1),
                pd_ook_low_estimate := ook_low_estimate s,
                pd_ook_high_estimate := max (ook_high_estimate s) OOK_MIN_HIGH_LEVEL\<rparr>,
              f)"
  using assms
  by (simp add: pulse_detect_package_def pd_loop.simps [of _ _ _ _ _ _ _ "(a, b)" for a b]
        pd_sample_def ook_gap.simps wr_def Let_def)

theorem OOK_pulse_overflow_ends_packet_witness:
  "pulse_detect_package pd_default [4000] [0] 1 0 250000 0
     (pulse_state_zero\<lparr>ook_state := PD_OOK_STATE_GAP, pulse_length := 20\<rparr>,
      pulse_data_clear\<lparr>num_pulses := 1199\<rparr>, pulse_data_clear) =
   Inr (1,
        pulse_state_zero\<lparr>ook_state := PD_OOK_STATE_IDLE, pulse_length := 21,
          ook_high_estimate := 1000\<rparr>,
        pulse_data_clear\<lparr>num_pulses := 1200, gap := (\<lambda>_. 0)(1199 := 21),
          pd_ook_low_estimate := 0, pd_ook_high_estimate := 1000\<rparr>,
        pulse_data_clear)"
proof -
  let ?s = "pulse_state_zero\<lparr>ook_state := PD_OOK_STATE_GAP, pulse_length := 20\<rparr>"
  let ?p = "pulse_data_clear\<lparr>num_pulses := 1199\<rparr>"
  have 1: "ook_state ?s = PD_OOK_STATE_GAP" by simp
  have 2: "data_counter ?s < 1" by (simp add: pulse_state_zero_def)
  have 3: "rdl [4000] (data_counter ?s) = Inr 4000" by (simp add: pulse_state_zero_def rdl_def)
  have 4: "4000 > ook_threshold 0
                  (?s\<lparr>ook_high_estimate := max (ook_high_estimate ?s) OOK_MIN_HIGH_LEVEL\<rparr>)
              + ook_hysteresis 0
                  (?s\<lparr>ook_high_estimate := max (ook_high_estimate ?s) OOK_MIN_HIGH_LEVEL\<rparr>)"
    by (simp add: pulse_state_zero_def ook_threshold_def ook_hysteresis_def
          OOK_MIN_HIGH_LEVEL_def cdiv_def s16_def)
  have 5: "num_pulses ?p + 1 = PD_MAX_PULSES pd_default"
    by (simp add: pd_default_def pulse_data_clear_def)
  from OOK_pulse_overflow_ends_packet [OF 1 2 3 4 5, of "[0]" 250000 0 pulse_data_clear]
  show ?thesis
    by (simp add: pulse_state_zero_def pulse_data_clear_def pd_default_def
          OOK_MIN_HIGH_LEVEL_def)
qed

section \<open>Invariant of the OOK detector\<close>













lemma pd_sample_Next_dc:
  "pd_sample c ll spm so amr fmr d = Next d' \<Longrightarrow> data_counter (fst d') = data_counter (fst d)"
  by (cases d)
     (auto simp: pd_sample_def ook_idle.simps ook_pulse.simps ook_gap_start.simps
        ook_gap.simps ook_gap_eop.simps fsk_feed.simps Let_def
        split: sum.splits ook_state_t.splits if_splits)

lemma pd_sample_Return:
  "pd_sample c ll spm so amr fmr d = Return r d' \<Longrightarrow>
     data_counter (fst d') = data_counter (fst d) \<and> ook_state (fst d') = PD_OOK_STATE_IDLE
     \<and> (r = 1 \<or> r = 2)"
  by (cases d)
     (auto simp: pd_sample_def ook_idle.simps ook_pulse.simps ook_gap_start.simps
        ook_gap.simps ook_gap_eop.simps fsk_feed.simps Let_def
        split: sum.splits ook_state_t.splits if_splits)

lemma pd_loop_cursor:
  "pd_loop c env fm len ll spm so d = Inr (r, d') \<Longrightarrow> r \<noteq> 0 \<Longrightarrow>
     data_counter (fst d') + 1 = data_counter (fst d) + int (pd_loop_samples c env fm len ll spm so d)
     \<and> data_counter (fst d') < len \<and> ook_state (fst d') = PD_OOK_STATE_IDLE \<and> (r = 1 \<or> r = 2)"
proof (induction c env fm len ll spm so d rule: pd_loop.induct)
  case (1 c env fm len ll spm so d)
  show ?case
  proof (cases "data_counter (fst d) < len")
    case False
    with "1.prems" show ?thesis by (simp add: pd_loop.simps [of _ _ _ _ _ _ _ d])
  next
    case True
    show ?thesis
    proof (cases "pd_sample c ll spm so (rdl env (data_counter (fst d)))
                    (rdl fm (data_counter (fst d))) d")
      case (Fault e)
      with True "1.prems" show ?thesis by (simp add: pd_loop.simps [of _ _ _ _ _ _ _ d])
    next
      case (Return r0 d0)
      with True "1.prems" pd_sample_Return [OF Return] show ?thesis
        by (simp add: pd_loop.simps [of _ _ _ _ _ _ _ d] pd_loop_samples.simps [of _ _ _ _ _ _ _ d])
    next
      case (Next d0)
      let ?d = "((fst d0)\<lparr>data_counter := data_counter (fst d0) + 1\<rparr>, snd d0)"
      from True Next "1.prems" have "pd_loop c env fm len ll spm so ?d = Inr (r, d')"
        by (simp add: pd_loop.simps [of _ _ _ _ _ _ _ d])
      from "1.IH" [OF True Next this "1.prems"(2)] pd_sample_Next_dc [OF Next] True Next
      show ?thesis
        by (simp add: pd_loop_samples.simps [of _ _ _ _ _ _ _ d])
    qed
  qed
qed

lemma pd_loop_feed:
  "len \<le> int (length env) \<Longrightarrow> len \<le> int (length fm) \<Longrightarrow> 0 \<le> data_counter (fst d) \<Longrightarrow>
     pd_loop c env fm len ll spm so d =
     pd_feed c ll spm so (drop (nat (data_counter (fst d))) (take (nat len) (zip env fm))) d"
proof (induction c env fm len ll spm so d rule: pd_loop.induct)
  case (1 c env fm len ll spm so d)
  let ?zs = "take (nat len) (zip env fm)"
  let ?i = "nat (data_counter (fst d))"
  show ?case
  proof (cases "data_counter (fst d) < len")
    case False
    with "1.prems" have "drop ?i ?zs = []" by simp
    with False show ?thesis by (simp add: pd_loop.simps [of _ _ _ _ _ _ _ d])
  next
    case True
    with "1.prems" have ie: "?i < length env" and im: "?i < length fm" and il: "?i < nat len"
      by linarith+
    then have i: "?i < length ?zs" by simp
    from ie im il have z: "?zs ! ?i = (env ! ?i, fm ! ?i)" by simp
    have dr: "drop ?i ?zs = ?zs ! ?i # drop (Suc ?i) ?zs"
      by (rule Cons_nth_drop_Suc [OF i, symmetric])
    from "1.prems" ie im have rd: "rdl env (data_counter (fst d)) = Inr (env ! ?i)"
      "rdl fm (data_counter (fst d)) = Inr (fm ! ?i)"
      by (simp_all add: rdl_def)
    show ?thesis
    proof (cases "pd_sample c ll spm so (Inr (env ! ?i)) (Inr (fm ! ?i)) d")
      case (Fault e)
      with True rd dr z show ?thesis by (simp add: pd_loop.simps [of _ _ _ _ _ _ _ d])
    next
      case (Return r0 d0)
      with True rd dr z show ?thesis by (simp add: pd_loop.simps [of _ _ _ _ _ _ _ d])
    next
      case (Next d0)
      let ?d = "((fst d0)\<lparr>data_counter := data_counter (fst d0) + 1\<rparr>, snd d0)"
      from pd_sample_Next_dc [OF Next] have dc: "data_counter (fst d0) = data_counter (fst d)" .
      from "1.prems"(3) have n: "nat (data_counter (fst d) + 1) = Suc ?i" by linarith
      from Next rd have "pd_sample c ll spm so (rdl env (data_counter (fst d)))
          (rdl fm (data_counter (fst d))) d = Next d0" by simp
      from "1.IH" [OF True this "1.prems"(1,2)] dc "1.prems"(3)
      have "pd_loop c env fm len ll spm so ?d = pd_feed c ll spm so (drop (Suc ?i) ?zs) ?d"
        by (simp add: n)
      with True rd dr z Next show ?thesis by (simp add: pd_loop.simps [of _ _ _ _ _ _ _ d])
    qed
  qed
qed







section \<open>The example stream\<close>

lemma length_ex: "length env_ex = 1401" "length fm_ex = 1401"
  by (simp_all add: env_ex_def fm_ex_def length_concat sum_list_replicate)

lemma example_feed:
  "case pd_feed pd_default 0 250 0 (zip env_ex fm_ex)
          (pulse_state_zero\<lparr>ook_high_estimate := 1000\<rparr>, pulse_data_clear, pulse_data_clear) of
     Inl e \<Rightarrow> False
   | Inr (r, s, p, f) \<Rightarrow> r = 2 \<and> data_counter s = 1400 \<and> num_pulses f = 19
        \<and> gap f 18 = 0 \<and> pulse f 18 = 15"
  by code_simp

text \<open>On the example stream the call returns an FSK packet of 19 symbols on sample
  1400; \<open>pulse_FSK_wrap_up\<close> has written the last symbol, a pulse of 15 with gap 0.\<close>

lemma example_run:
  "case pulse_detect_package pd_default env_ex fm_ex 1401 0 250000 0
          (pulse_state_zero, pulse_data_clear, pulse_data_clear) of
     Inl e \<Rightarrow> False
   | Inr (r, s, p, f) \<Rightarrow> r = 2 \<and> data_counter s = 1400 \<and> num_pulses f = 19
        \<and> gap f 18 = 0 \<and> pulse f 18 = 15"
proof -
  let ?d = "(pulse_state_zero\<lparr>ook_high_estimate := 1000\<rparr>, pulse_data_clear, pulse_data_clear)"
  have "pd_loop pd_default env_ex fm_ex 1401 0 250 0 ?d
      = pd_feed pd_default 0 250 0
          (drop (nat (data_counter (fst ?d))) (take (nat 1401) (zip env_ex fm_ex))) ?d"
    by (rule pd_loop_feed) (simp_all add: length_ex pulse_state_zero_def)
  then have "pulse_detect_package pd_default env_ex fm_ex 1401 0 250000 0
          (pulse_state_zero, pulse_data_clear, pulse_data_clear)
      = pd_feed pd_default 0 250 0 (zip env_ex fm_ex) ?d"
    by (simp add: pulse_detect_package_def length_ex pulse_state_zero_def
          OOK_MIN_HIGH_LEVEL_def)
  with example_feed show ?thesis by simp
qed



section \<open>Widths of the symbols of an emitted packet\<close>




section \<open>The cursor after a packet is returned\<close>

lemma pulse_detect_package_cursor:
  assumes "pulse_detect_package c env fm len ll sr so d = Inr (r, d')" and "r \<noteq> 0"
  shows "data_counter (fst d') + 1
           = data_counter (fst d) + int (samples_examined c env fm len ll sr so d)
         \<and> data_counter (fst d') < len \<and> ook_state (fst d') = PD_OOK_STATE_IDLE"
  using pd_loop_cursor [OF assms(1) [unfolded pulse_detect_package_def] assms(2)]
  by (simp add: samples_examined_def)

text \<open>
  C1, as amended. When a call returns a packet (1 or 2), the cursor is not advanced past
  the sample on which the packet was ended: it still holds the index of the last sample
  the loop examined (the start cursor plus the number of samples examined, minus one),
  that index is inside the chunk, and the state is IDLE, so the next call examines the
  same sample again, in state IDLE.
\<close>

theorem packet_return_keeps_cursor:
  "case pulse_detect_package c env fm len ll sr so d of
     Inl e \<Rightarrow> True
   | Inr (r, d') \<Rightarrow>
       r = 1 \<or> r = 2 \<longrightarrow>
         data_counter (fst d')
           = data_counter (fst d) + int (samples_examined c env fm len ll sr so d) - 1
         \<and> data_counter (fst d') < len \<and> ook_state (fst d') = PD_OOK_STATE_IDLE"
proof (cases "pulse_detect_package c env fm len ll sr so d")
  case (Inl e)
  then show ?thesis by simp
next
  case (Inr x)
  obtain r d' where x: "x = (r, d')" by (cases x)
  show ?thesis
  proof (cases "r = 0")
    case True
    with Inr x show ?thesis by simp
  next
    case False
    from pulse_detect_package_cursor [OF Inr [unfolded x] False] Inr x show ?thesis
      by simp
  qed
qed

theorem packet_return_keeps_cursor_witness:
  "case pulse_detect_package pd_default env_ex fm_ex 1401 0 250000 0
          (pulse_state_zero, pulse_data_clear, pulse_data_clear) of
     Inl e \<Rightarrow> False
   | Inr (r, d') \<Rightarrow>
       r = 2 \<and> data_counter (fst d')
           = 0 + int (samples_examined pd_default env_ex fm_ex 1401 0 250000 0
                        (pulse_state_zero, pulse_data_clear, pulse_data_clear)) - 1
         \<and> data_counter (fst d') < 1401 \<and> ook_state (fst d') = PD_OOK_STATE_IDLE"
  using packet_return_keeps_cursor [where c = pd_default and env = env_ex and fm = fm_ex
      and len = 1401 and ll = 0 and sr = 250000 and so = 0
      and d = "(pulse_state_zero, pulse_data_clear, pulse_data_clear)"] example_run
  by (auto simp: pulse_state_zero_def split: sum.splits)

text \<open>
  C1 as stated fails on the example stream: the call examines 1401 samples, ends the
  packet on the last of them (index 1400), and returns with the cursor at 1400, not at
  the following sample 1401.
\<close>

theorem cursor_after_packet_counterexample:
  "case pulse_detect_package pd_default env_ex fm_ex 1401 0 250000 0
          (pulse_state_zero, pulse_data_clear, pulse_data_clear) of
     Inl e \<Rightarrow> False
   | Inr (r, d') \<Rightarrow>
       r = 2
       \<and> samples_examined pd_default env_ex fm_ex 1401 0 250000 0
            (pulse_state_zero, pulse_data_clear, pulse_data_clear) = 1401
       \<and> data_counter (fst d') = 1400
       \<and> data_counter (fst d') \<noteq> data_counter pulse_state_zero
            + int (samples_examined pd_default env_ex fm_ex 1401 0 250000 0
                     (pulse_state_zero, pulse_data_clear, pulse_data_clear))"
proof (cases "pulse_detect_package pd_default env_ex fm_ex 1401 0 250000 0
          (pulse_state_zero, pulse_data_clear, pulse_data_clear)")
  case (Inl e)
  with example_run show ?thesis by simp
next
  case (Inr x)
  obtain r d' where x: "x = (r, d')" by (cases x)
  from example_run Inr x have r: "r = 2" and dc: "data_counter (fst d') = 1400"
    by (auto split: prod.splits)
  from pulse_detect_package_cursor [OF Inr [unfolded x]] r dc
  have "samples_examined pd_default env_ex fm_ex 1401 0 250000 0
            (pulse_state_zero, pulse_data_clear, pulse_data_clear) = 1401"
    by (simp add: pulse_state_zero_def)
  with Inr x r dc show ?thesis by (simp add: pulse_state_zero_def)
qed

section \<open>Bounds of the level estimates\<close>

lemma high_ok_upd [simp]:
  "high_ok (s\<lparr>pulse_length := a\<rparr>) = high_ok s"
  "high_ok (s\<lparr>ook_state := b\<rparr>) = high_ok s"
  "high_ok (s\<lparr>max_pulse := e\<rparr>) = high_ok s"
  "high_ok (s\<lparr>FSK_state := g\<rparr>) = high_ok s"
  "high_ok (s\<lparr>lead_in_counter := i\<rparr>) = high_ok s"
  "high_ok (s\<lparr>ook_low_estimate := j\<rparr>) = high_ok s"
  "high_ok (s\<lparr>data_counter := k\<rparr>) = high_ok s"
  "high_ok (s\<lparr>ook_high_estimate := clamp_high h\<rparr>)"
  by (simp_all add: high_ok_def clamp_high_def OOK_MIN_HIGH_LEVEL_def OOK_MAX_HIGH_LEVEL_def)

lemma fsk_feed_high: "high_ok s \<Longrightarrow> high_after (fsk_feed c fmr (s, p, f))"
  by (simp add: fsk_feed.simps high_after_def split: sum.splits)

lemma ook_idle_high: "high_ok s \<Longrightarrow> high_after (ook_idle ll so am (s, p, f))"
  by (simp add: ook_idle.simps high_after_def Let_def)

lemma ook_pulse_high: "high_ok s \<Longrightarrow> high_after (ook_pulse c ll am fmr (s, p, f))"
  by (simp add: ook_pulse.simps Let_def fsk_feed_high split: sum.splits)
     (simp add: high_after_def)

lemma ook_gap_start_high: "high_ok s \<Longrightarrow> high_after (ook_gap_start c ll am fmr (s, p, f))"
  by (simp add: ook_gap_start.simps Let_def fsk_feed_high split: sum.splits)
     (simp add: high_after_def)

lemma ook_gap_eop_high: "high_ok s \<Longrightarrow> high_after (ook_gap_eop c spm (s, p, f))"
  by (simp add: ook_gap_eop.simps high_after_def split: sum.splits)

lemma ook_gap_high: "high_ok s \<Longrightarrow> high_after (ook_gap c ll spm am (s, p, f))"
  by (simp add: ook_gap.simps Let_def ook_gap_eop_high split: sum.splits)
     (simp add: high_after_def)

lemma pd_sample_high:
  "high_ok (fst d) \<Longrightarrow> high_after (pd_sample c ll spm so amr fmr d)"
  by (cases d)
     (simp add: pd_sample_def ook_idle_high ook_pulse_high ook_gap_start_high ook_gap_high
        split: sum.splits ook_state_t.splits, simp add: high_after_def)

lemma pd_loop_high:
  "high_ok (fst d) \<Longrightarrow> pd_loop c env fm len ll spm so d = Inr (r, d') \<Longrightarrow> high_ok (fst d')"
proof (induction c env fm len ll spm so d rule: pd_loop.induct)
  case (1 c env fm len ll spm so d)
  show ?case
  proof (cases "data_counter (fst d) < len")
    case False
    with "1.prems" show ?thesis
      by (auto simp: pd_loop.simps [of _ _ _ _ _ _ _ d])
  next
    case True
    let ?st = "pd_sample c ll spm so (rdl env (data_counter (fst d)))
                 (rdl fm (data_counter (fst d))) d"
    from pd_sample_high [OF "1.prems"(1), of c ll spm so "rdl env (data_counter (fst d))"
        "rdl fm (data_counter (fst d))"]
    have h: "case ?st of Fault e \<Rightarrow> True | Return r d' \<Rightarrow> high_ok (fst d')
             | Next d' \<Rightarrow> high_ok (fst d')" by (simp add: high_after_def)
    show ?thesis
    proof (cases ?st)
      case (Fault e)
      with True "1.prems" show ?thesis by (simp add: pd_loop.simps [of _ _ _ _ _ _ _ d])
    next
      case (Return r0 d0)
      with True "1.prems" h show ?thesis by (simp add: pd_loop.simps [of _ _ _ _ _ _ _ d])
    next
      case (Next d0)
      let ?d = "((fst d0)\<lparr>data_counter := data_counter (fst d0) + 1\<rparr>, snd d0)"
      from h Next have "high_ok (fst ?d)" by simp
      moreover from True Next "1.prems" have "pd_loop c env fm len ll spm so ?d = Inr (r, d')"
        by (simp add: pd_loop.simps [of _ _ _ _ _ _ _ d])
      ultimately show ?thesis using "1.IH" [OF True Next] by blast
    qed
  qed
qed

text \<open>The half of C4 that the code keeps: once a call has been entered with the high
  estimate at most \<open>OOK_MAX_HIGH_LEVEL\<close> (the zeroed state is such a state), the high
  estimate lies between \<open>OOK_MIN_HIGH_LEVEL\<close> and \<open>OOK_MAX_HIGH_LEVEL\<close> when the call
  returns.\<close>

lemma ook_high_estimate_bounded:
  assumes "ook_high_estimate (fst d) \<le> OOK_MAX_HIGH_LEVEL"
    and "pulse_detect_package c env fm len ll sr so d = Inr (r, d')"
  shows "OOK_MIN_HIGH_LEVEL \<le> ook_high_estimate (fst d')
         \<and> ook_high_estimate (fst d') \<le> OOK_MAX_HIGH_LEVEL"
proof -
  let ?d = "((fst d)\<lparr>ook_high_estimate := max (ook_high_estimate (fst d)) OOK_MIN_HIGH_LEVEL\<rparr>,
             snd d)"
  from assms(1) have "high_ok (fst ?d)"
    by (simp add: high_ok_def OOK_MIN_HIGH_LEVEL_def OOK_MAX_HIGH_LEVEL_def)
  from pd_loop_high [OF this assms(2) [unfolded pulse_detect_package_def]]
  show ?thesis by (simp add: high_ok_def)
qed

lemma strong_carrier_feed:
  "case pd_feed pd_default 0 250 0 (zip (replicate 700 16384) (replicate 700 0))
          (pulse_state_zero\<lparr>ook_high_estimate := 1000\<rparr>, pulse_data_clear, pulse_data_clear) of
     Inl e \<Rightarrow> False
   | Inr (r, s, p, f) \<Rightarrow> r = 0 \<and> ook_low_estimate s = 8366"
  by code_simp

text \<open>
  C4 at a failing input. From the zeroed state, 700 samples of a carrier at the
  unit-phasor level 16384 (during the lead-in, so the detector stays IDLE) drive the low
  estimate to 8366, above \<open>OOK_MAX_LOW_LEVEL = 8192\<close>: the code never clamps it.
\<close>

theorem ook_low_estimate_exceeds_max:
  "case pulse_detect_package pd_default (replicate 700 16384) (replicate 700 0) 700 0 250000 0
          (pulse_state_zero, pulse_data_clear, pulse_data_clear) of
     Inl e \<Rightarrow> False
   | Inr (r, s, p, f) \<Rightarrow> r = 0 \<and> ook_low_estimate s = 8366
        \<and> OOK_MAX_LOW_LEVEL < ook_low_estimate s"
proof -
  let ?d = "(pulse_state_zero\<lparr>ook_high_estimate := 1000\<rparr>, pulse_data_clear, pulse_data_clear)"
  let ?e = "replicate 700 (16384::int)" and ?m = "replicate 700 (0::int)"
  have "pd_loop pd_default ?e ?m 700 0 250 0 ?d
      = pd_feed pd_default 0 250 0
          (drop (nat (data_counter (fst ?d))) (take (nat 700) (zip ?e ?m))) ?d"
    by (rule pd_loop_feed) (simp_all add: pulse_state_zero_def)
  then have "pulse_detect_package pd_default ?e ?m 700 0 250000 0
          (pulse_state_zero, pulse_data_clear, pulse_data_clear)
      = pd_feed pd_default 0 250 0 (zip ?e ?m) ?d"
    by (simp add: pulse_detect_package_def pulse_state_zero_def OOK_MIN_HIGH_LEVEL_def)
  with strong_carrier_feed show ?thesis
    by (auto simp: OOK_MAX_LOW_LEVEL_def OOK_MAX_HIGH_LEVEL_def cdiv_def split: sum.splits)
qed

end
